theory Spec2Isabelle
  imports Main "HOL-Library.AList"
begin

section \<open>JavaScript values\<close>

text \<open>
  The values that flow through the library: response payloads, identities, configuration
  settings. Numbers are restricted to integers (identities and array lengths); objects and
  arrays that are only read are trees, with the own properties of an object in stored order.
\<close>

datatype jsval =
    JUndefined
  | JNull
  | JBool bool
  | JNum int
  | JStr string
  | JArr "jsval list"
  | JObj "(string \<times> jsval) list"

text \<open>The conversion to a boolean that \<^verbatim>\<open>if (v)\<close>, \<^verbatim>\<open>!v\<close> and \<^verbatim>\<open>v || d\<close> perform.\<close>

fun truthy :: "jsval \<Rightarrow> bool" where
  "truthy JUndefined = False"
| "truthy JNull = False"
| "truthy (JBool b) = b"
| "truthy (JNum n) = (n \<noteq> 0)"
| "truthy (JStr s) = (s \<noteq> [])"
| "truthy (JArr xs) = True"
| "truthy (JObj ps) = True"

fun typeof :: "jsval \<Rightarrow> string" where
  "typeof JUndefined = ''undefined''"
| "typeof JNull = ''object''"
| "typeof (JBool b) = ''boolean''"
| "typeof (JNum n) = ''number''"
| "typeof (JStr s) = ''string''"
| "typeof (JArr xs) = ''object''"
| "typeof (JObj ps) = ''object''"

text \<open>Decimal rendering of an array index, as a property name.\<close>

fun show_nat :: "nat \<Rightarrow> string" where
  "show_nat n =
     (if n < 10 then [''0123456789'' ! n]
      else show_nat (n div 10) @ [''0123456789'' ! (n mod 10)])"

text \<open>
  \<^verbatim>\<open>Object.getOwnPropertyNames(obj)\<close>: a TypeError on \<^verbatim>\<open>undefined\<close> and \<^verbatim>\<open>null\<close>, the
  indices and \<^verbatim>\<open>length\<close> of a string or an array, nothing for a number or a boolean.
\<close>

datatype error =
    NoResourceError
  | NoBaseURLError
  | NoIdentityError
  | ReferenceError string
  | TypeError
  | TransportError jsval

text \<open>
  \<open>NoResourceError\<close> and \<open>NoBaseURLError\<close> are the two error classes of the builder module.
  \<open>ReferenceError\<close> (with the unresolvable name) and \<open>TypeError\<close> are raised by the language
  itself. \<open>TransportError\<close> carries the reason of a rejected transport promise. No statement
  of the source raises \<open>NoIdentityError\<close>; the constructor exists so that the specification's
  error kind can be named.
\<close>

fun getOwnPropertyNames :: "jsval \<Rightarrow> error + string list" where
  "getOwnPropertyNames JUndefined = Inl TypeError"
| "getOwnPropertyNames JNull = Inl TypeError"
| "getOwnPropertyNames (JBool b) = Inr []"
| "getOwnPropertyNames (JNum n) = Inr []"
| "getOwnPropertyNames (JStr s) = Inr (map show_nat [0..<length s] @ [''length''])"
| "getOwnPropertyNames (JArr xs) = Inr (map show_nat [0..<length xs] @ [''length''])"
| "getOwnPropertyNames (JObj ps) = Inr (map fst ps)"

text \<open>The property read \<^verbatim>\<open>obj[prop]\<close>; a missing property reads as \<^verbatim>\<open>undefined\<close>.\<close>

definition element :: "'a list \<Rightarrow> string \<Rightarrow> 'a option" where
  "element xs prop =
     (case find (\<lambda>i. show_nat i = prop) [0..<length xs] of
        Some i \<Rightarrow> Some (xs ! i)
      | None \<Rightarrow> None)"

fun getProp :: "jsval \<Rightarrow> string \<Rightarrow> jsval" where
  "getProp (JObj ps) prop = (case map_of ps prop of Some v \<Rightarrow> v | None \<Rightarrow> JUndefined)"
| "getProp (JArr xs) prop =
     (if prop = ''length'' then JNum (int (length xs))
      else case element xs prop of Some v \<Rightarrow> v | None \<Rightarrow> JUndefined)"
| "getProp (JStr s) prop =
     (if prop = ''length'' then JNum (int (length s))
      else case element s prop of Some c \<Rightarrow> JStr [c] | None \<Rightarrow> JUndefined)"
| "getProp v prop = JUndefined"


section \<open>Case converter\<close>

text \<open>
  \<^verbatim>\<open>camelToKebab\<close> of util.js and \<^verbatim>\<open>camelCaseToHyphen\<close> of the builder variant have the same
  body:
  \<^verbatim>\<open>
  for (let i = 0; i < input.length; ++i) {
      if (input[i].toUpperCase() === input[i] && i > 0) {
          input = input.replace(input[i], "-" + input[i].toLowerCase());
      }
  }
  return input.toLowerCase();
  \<close>
  Strings are lists of 8-bit characters and the case mappings are those of the ASCII
  letters; every other character is its own upper and lower case.
\<close>

definition toUpperCase :: "char \<Rightarrow> char" where
  "toUpperCase c =
     (case map_of (zip ''abcdefghijklmnopqrstuvwxyz'' ''ABCDEFGHIJKLMNOPQRSTUVWXYZ'') c of
        Some u \<Rightarrow> u
      | None \<Rightarrow> c)"

definition toLowerCase :: "char \<Rightarrow> char" where
  "toLowerCase c =
     (case map_of (zip ''ABCDEFGHIJKLMNOPQRSTUVWXYZ'' ''abcdefghijklmnopqrstuvwxyz'') c of
        Some l \<Rightarrow> l
      | None \<Rightarrow> c)"

text \<open>
  \<^verbatim>\<open>input.replace(c, r)\<close> with a one-character string pattern: the first occurrence of the
  character is replaced, the rest of the string is kept. (The replacement \<open>r\<close> is a hyphen
  followed by one character, so it holds none of the two-character \<^verbatim>\<open>$\<close> patterns.)
\<close>

fun replace :: "char \<Rightarrow> string \<Rightarrow> string \<Rightarrow> string" where
  "replace c r [] = []"
| "replace c r (x # xs) = (if x = c then r @ xs else x # replace c r xs)"

text \<open>
  The loop reads \<^verbatim>\<open>input.length\<close> afresh at every test while its body makes \<^verbatim>\<open>input\<close>
  longer, so it is a partial function: \<open>None\<close> is a run that never returns.
\<close>

partial_function (option) camelToKebab_loop :: "nat \<Rightarrow> string \<Rightarrow> string option" where
  "camelToKebab_loop i input =
     (if i < length input then
        (if toUpperCase (input ! i) = input ! i \<and> i > 0
         then camelToKebab_loop (i + 1)
                (replace (input ! i) (CHR ''-'' # [toLowerCase (input ! i)]) input)
         else camelToKebab_loop (i + 1) input)
      else Some (map toLowerCase input))"

declare camelToKebab_loop.simps [code]

definition camelToKebab :: "string \<Rightarrow> string option" where
  "camelToKebab input = camelToKebab_loop 0 input"

definition camelCaseToHyphen :: "string \<Rightarrow> string option" where
  "camelCaseToHyphen input = camelToKebab_loop 0 input"

text \<open>
  The converter as the specification words it: a hyphen before every uppercase letter at an
  index above 0, that letter lowercased, and the whole result lowercased.
\<close>

definition isUpperLetter :: "char \<Rightarrow> bool" where
  "isUpperLetter c \<longleftrightarrow> c \<in> set ''ABCDEFGHIJKLMNOPQRSTUVWXYZ''"

definition hyphenate :: "char \<Rightarrow> string" where
  "hyphenate c = (if isUpperLetter c then [CHR ''-'', toLowerCase c] else [c])"

fun toHyphenated_spec :: "string \<Rightarrow> string" where
  "toHyphenated_spec [] = []"
| "toHyphenated_spec (c # cs) = map toLowerCase (c # concat (map hyphenate cs))"

text \<open>A character that both case mappings leave alone: a digit, a hyphen, an underscore.\<close>

definition caseless :: "char \<Rightarrow> bool" where
  "caseless c \<longleftrightarrow> toUpperCase c = c \<and> toLowerCase c = c"



section \<open>Method inventory\<close>

text \<open>
  An entity type of the class-based variant is a subclass of \<^verbatim>\<open>Model\<close>, as \<^verbatim>\<open>Car\<close> in
  example.js. It carries the static settings \<^verbatim>\<open>baseURL\<close>, \<^verbatim>\<open>modelName\<close> and \<^verbatim>\<open>conf\<close>
  (written by \<^verbatim>\<open>useBaseURL\<close>, \<^verbatim>\<open>useName\<close>, \<^verbatim>\<open>useConf\<close>) and its own members: the own
  properties of its prototype and of the class itself, each a function or a data value.
  Its own methods are further operations, as \<^verbatim>\<open>repair\<close> and \<^verbatim>\<open>repairAll\<close> are; the
  methods and getters it inherits from \<^verbatim>\<open>Model\<close> are the ones of this file.
\<close>

datatype member = Method | Field jsval

fun typeof_member :: "member \<Rightarrow> string" where
  "typeof_member Method = ''function''"
| "typeof_member (Field v) = typeof v"

record klass =
  klass_baseURL :: jsval
  klass_modelName :: jsval
  klass_conf :: jsval
  klass_prototype :: "(string \<times> member) list"
  klass_statics :: "(string \<times> member) list"

definition useBaseURL :: "jsval \<Rightarrow> klass \<Rightarrow> klass" where
  "useBaseURL baseURL klass = klass\<lparr>klass_baseURL := baseURL\<rparr>"

definition useName :: "jsval \<Rightarrow> klass \<Rightarrow> klass" where
  "useName name klass = klass\<lparr>klass_modelName := name\<rparr>"

definition useConf :: "jsval \<Rightarrow> klass \<Rightarrow> klass" where
  "useConf conf klass = klass\<lparr>klass_conf := conf\<rparr>"

definition own :: "(string \<times> member) list \<Rightarrow> string \<Rightarrow> member" where
  "own members name = (case map_of members name of Some m \<Rightarrow> m | None \<Rightarrow> Field JUndefined)"

definition allMethodsOf :: "klass \<Rightarrow> string list" where
  "allMethodsOf klass =
     (let objectMethods =
            filter (\<lambda>method. typeof_member (own (klass_prototype klass) method) = ''function'')
              (map fst (klass_prototype klass));
          staticMethods =
            filter (\<lambda>method. typeof_member (own (klass_statics klass) method) = ''function'')
              (map fst (klass_statics klass))
      in objectMethods @ staticMethods)"


section \<open>The store and the transport\<close>

text \<open>
  Mutable objects live in a store, addressed by numbers: the configuration objects and the
  arrays of the builder variant, and the model instances of the class-based variant. Each
  kind has a counter for the next free address. The store also holds the requests sent
  through the transport so far, oldest first.
\<close>

datatype item = Data jsval | Callback string

datatype slot = ArrayRef nat | Plain jsval

record config =
  resource :: jsval
  baseURL :: jsval
  requestListeners :: nat
  innerResources :: slot

text \<open>
  \<open>requestListeners\<close> is the address of the listener array (the field is assigned once, in
  the builder's constructor). \<open>innerResources\<close> is what the field holds: the address of an
  array, or any other value that \<^verbatim>\<open>setInnerResources\<close> was given.
\<close>

datatype proto = ObjectPrototype | NullPrototype | ValuePrototype jsval

record model_instance =
  inst_id :: jsval
  inst_data :: "(string \<times> jsval) list option"
  data_proto :: proto

text \<open>
  \<open>inst_id\<close> is the field \<^verbatim>\<open>id\<close>. \<open>inst_data\<close> is the field \<^verbatim>\<open>_data\<close>: \<open>None\<close> while the
  field is \<^verbatim>\<open>undefined\<close>, otherwise the own properties of the object it holds, in stored
  order. \<open>data_proto\<close> is the prototype of that object: \<^verbatim>\<open>Object.prototype\<close> for the \<^verbatim>\<open>{}\<close>
  that \<^verbatim>\<open>fillIn\<close> makes, and \<^verbatim>\<open>null\<close> or a payload object once an assignment to the
  property \<^verbatim>\<open>__proto__\<close> has run the prototype setter.
\<close>

record handle =
  h_base :: jsval
  h_options :: jsval
  h_name :: jsval
  h_resources :: "string list"
  h_id :: "jsval option"

datatype verb = GET | POST | PATCH | DELETE

record request =
  verb :: verb
  target :: handle
  payload :: jsval

record world =
  configs :: "nat \<Rightarrow> config"
  next_config :: nat
  arrays :: "nat \<Rightarrow> item list"
  next_array :: nat
  heap :: "nat \<Rightarrow> model_instance"
  next_instance :: nat
  requests :: "request list"

text \<open>
  Modelled from the spec: the transport client is an external library, described in the
  specification's section on external interfaces. A resource handle is scoped to a base
  address and a resource name, with the registered sub-resources; calling it with an identity
  narrows it to the single-instance path \<^verbatim>\<open>resourceName/identity\<close> (\<open>h_id = Some identity\<close>),
  otherwise it addresses the collection (\<open>h_id = None\<close>). A verb method sends one request
  and resolves or rejects; the server is a parameter, a function of the requests sent
  before and the request, giving the rejection reason (\<open>Inl\<close>) or the payload (\<open>Inr\<close>).
\<close>

type_synonym transport = "request list \<Rightarrow> request \<Rightarrow> jsval + jsval"

text \<open>
  Modelled from the spec: a resource is registered by a string name; with any other value
  as the name the registration throws a TypeError. The library installs a registered
  resource as a property of its parent under the resource's name (the source reads
  \<^verbatim>\<open>client[this.modelName]\<close>, the example \<^verbatim>\<open>apiClient.repair\<close>), so a resource named like a
  member that the client or a handle carries itself would take that member's place. The
  verb methods, the path and the registration are what this section says on a handle
  whose resource names are none of those members.
\<close>

definition transport_members :: "string list" where
  "transport_members =
     [''res'', ''url'', ''get'', ''post'', ''put'', ''patch'', ''delete'',
      ''on'', ''off'', ''emit'', ''conf'', ''host'', ''name'', ''length'',
      ''_opts'', ''_request'', ''_resources'', ''_shortcuts'', ''_clone'']"

definition resource_names :: "handle \<Rightarrow> string list" where
  "resource_names h = (case h_name h of JStr name \<Rightarrow> [name] | _ \<Rightarrow> []) @ h_resources h"

definition well_named :: "handle \<Rightarrow> bool" where
  "well_named h \<longleftrightarrow> list_all (\<lambda>name. name \<notin> set transport_members) (resource_names h)"

definition narrow :: "handle \<Rightarrow> jsval \<Rightarrow> handle" where
  "narrow client identity = client\<lparr>h_id := Some identity\<rparr>"

definition send :: "transport \<Rightarrow> verb \<Rightarrow> handle \<Rightarrow> jsval \<Rightarrow> world \<Rightarrow> (error + jsval) \<times> world" where
  "send srv v h body w =
     (let r = \<lparr>verb = v, target = h, payload = body\<rparr>
      in (case srv (requests w) r of
            Inl reason \<Rightarrow> Inl (TransportError reason)
          | Inr response \<Rightarrow> Inr response,
          w\<lparr>requests := requests w @ [r]\<rparr>))"


section \<open>The class-based variant of Model\<close>

text \<open>
  What a method returns: a plain value, a reference to an instance, or an array of such.
  A result of \<open>None\<close> at the outside of an operation is a run that never returns (the case
  converter may loop), \<open>Inl\<close> is a thrown error or a rejected promise.
\<close>

datatype result = Value jsval | Instance nat | Array "result list"

text \<open>\<^verbatim>\<open>constructor(id) { this.id = id; }\<close> and \<^verbatim>\<open>static newInstance() { return new this(); }\<close>\<close>

definition constructor_v2 :: "jsval \<Rightarrow> world \<Rightarrow> nat \<times> world" where
  "constructor_v2 ident w =
     (next_instance w,
      w\<lparr>heap := (heap w)(next_instance w :=
                  \<lparr>inst_id = ident, inst_data = None, data_proto = ObjectPrototype\<rparr>),
        next_instance := Suc (next_instance w)\<rparr>)"

definition newInstance :: "world \<Rightarrow> nat \<times> world" where
  "newInstance w = constructor_v2 JUndefined w"

text \<open>
  \<^verbatim>\<open>
  static get apiClient() {
    const client = new RestClient(this.baseURL, this.conf || {});
    client.res(this.modelName).res(
      allMethodsOf(this)
        .filter((method) => method !== "constructor")
        .map((method) => camelToKebab(method)));
    client.on("request", this.onRequest);
    return client[this.modelName];
  }
  \<close>
  \<^verbatim>\<open>client.res(this.modelName)\<close> is evaluated first and throws a TypeError unless the model
  name is a string; then the method names are converted, and the getter returns once the
  case converter has returned for every one of them.
\<close>

definition apiClient_static :: "klass \<Rightarrow> (error + handle) option" where
  "apiClient_static klass =
     (case klass_modelName klass of
        JStr name \<Rightarrow>
          (case those (map camelToKebab
                        (filter (\<lambda>method. method \<noteq> ''constructor'') (allMethodsOf klass))) of
             None \<Rightarrow> None
           | Some names \<Rightarrow>
               Some (Inr \<lparr>h_base = klass_baseURL klass,
                          h_options =
                            (if truthy (klass_conf klass) then klass_conf klass else JObj []),
                          h_name = klass_modelName klass,
                          h_resources = names,
                          h_id = None\<rparr>))
      | other \<Rightarrow> Some (Inl TypeError))"

text \<open>
  \<^verbatim>\<open>
  get apiClient() {
    const client = this.constructor.apiClient;
    if (this.id) { return client(this.id); }
    return client;
  }
  \<close>
\<close>

definition apiClient :: "klass \<Rightarrow> nat \<Rightarrow> world \<Rightarrow> (error + handle) option" where
  "apiClient klass this w =
     (case apiClient_static klass of
        None \<Rightarrow> None
      | Some (Inl e) \<Rightarrow> Some (Inl e)
      | Some (Inr client) \<Rightarrow>
          Some (Inr (if truthy (inst_id (heap w this))
                     then narrow client (inst_id (heap w this))
                     else client)))"

text \<open>
  \<^verbatim>\<open>
  fillIn(obj) {
    if (!(this._data instanceof Object)) { this._data = {}; }
    for (let prop of Object.getOwnPropertyNames(obj)) { this._data[prop] = obj[prop]; }
  }
  \<close>
  The body has no \<^verbatim>\<open>return\<close>: the call evaluates to \<^verbatim>\<open>undefined\<close>.

  The assignment \<^verbatim>\<open>this._data[prop] = v\<close> writes an own property of the bag: it keeps the
  place of a property that the bag has and appends a new one. The one exception is the
  name \<^verbatim>\<open>__proto__\<close> while the bag has no own property of that name and inherits the
  accessor of \<^verbatim>\<open>Object.prototype\<close>: then the setter runs, which makes \<open>v\<close> the prototype of
  the bag when \<open>v\<close> is \<^verbatim>\<open>null\<close>, an object or an array, and does nothing otherwise. The bag
  inherits the accessor unless its prototype is \<^verbatim>\<open>null\<close> or is a payload object that has
  an own property \<^verbatim>\<open>__proto__\<close> itself (a data property, which hides the accessor).
\<close>

definition hasOwn :: "jsval \<Rightarrow> string \<Rightarrow> bool" where
  "hasOwn v prop \<longleftrightarrow>
     (case getOwnPropertyNames v of Inl e \<Rightarrow> False | Inr props \<Rightarrow> prop \<in> set props)"

fun inheritsSetter :: "proto \<Rightarrow> bool" where
  "inheritsSetter ObjectPrototype = True"
| "inheritsSetter NullPrototype = False"
| "inheritsSetter (ValuePrototype p) = (\<not> hasOwn p ''__proto__'')"

fun setPrototype :: "jsval \<Rightarrow> proto \<Rightarrow> proto" where
  "setPrototype JNull p = NullPrototype"
| "setPrototype (JObj ps) p = ValuePrototype (JObj ps)"
| "setPrototype (JArr xs) p = ValuePrototype (JArr xs)"
| "setPrototype v p = p"

definition assign :: "string \<Rightarrow> jsval \<Rightarrow> (string \<times> jsval) list \<times> proto \<Rightarrow> (string \<times> jsval) list \<times> proto" where
  "assign prop v bag =
     (case bag of
        (d, p) \<Rightarrow>
          if prop = ''__proto__'' \<and> map_of d prop = None \<and> inheritsSetter p
          then (d, setPrototype v p)
          else (AList.update prop v d, p))"

definition merge :: "jsval \<Rightarrow> string list \<Rightarrow> (string \<times> jsval) list \<times> proto \<Rightarrow> (string \<times> jsval) list \<times> proto" where
  "merge obj props bag = fold (\<lambda>prop bag. assign prop (getProp obj prop) bag) props bag"

text \<open>
  \<^verbatim>\<open>this._data instanceof Object\<close> holds when \<^verbatim>\<open>_data\<close> is an object whose prototype chain
  reaches \<^verbatim>\<open>Object.prototype\<close>: not when the field is \<^verbatim>\<open>undefined\<close>, and not when the bag's
  prototype has been set to \<^verbatim>\<open>null\<close>. In both cases the bag is replaced by a new \<^verbatim>\<open>{}\<close>.
\<close>

definition bag_of :: "model_instance \<Rightarrow> (string \<times> jsval) list \<times> proto" where
  "bag_of i =
     (case inst_data i of
        None \<Rightarrow> ([], ObjectPrototype)
      | Some d \<Rightarrow> if data_proto i = NullPrototype then ([], ObjectPrototype) else (d, data_proto i))"

definition fillIn_v2 :: "nat \<Rightarrow> jsval \<Rightarrow> world \<Rightarrow> (error + result) \<times> world" where
  "fillIn_v2 this obj w =
     (let bag = bag_of (heap w this)
      in case getOwnPropertyNames obj of
           Inl e \<Rightarrow>
             (Inl e,
              w\<lparr>heap := (heap w)(this :=
                   (heap w this)\<lparr>inst_data := Some (fst bag), data_proto := snd bag\<rparr>)\<rparr>)
         | Inr props \<Rightarrow>
             (Inr (Value JUndefined),
              w\<lparr>heap := (heap w)(this :=
                   (heap w this)\<lparr>inst_data := Some (fst (merge obj props bag)),
                                  data_proto := snd (merge obj props bag)\<rparr>)\<rparr>))"

text \<open>
  \<^verbatim>\<open>
  static async list(args) {
    args = args || {};
    let list = await this.apiClient.get(args);
    return list.map((obj) => this.newInstance().fillIn(obj));
  }
  \<close>
\<close>

fun hydrate_all :: "jsval list \<Rightarrow> world \<Rightarrow> (error + result list) \<times> world" where
  "hydrate_all [] w = (Inr [], w)"
| "hydrate_all (obj # objs) w =
     (case newInstance w of
        (a, w1) \<Rightarrow>
          (case fillIn_v2 a obj w1 of
             (Inl e, w2) \<Rightarrow> (Inl e, w2)
           | (Inr r, w2) \<Rightarrow>
               (case hydrate_all objs w2 of
                  (Inl e, w3) \<Rightarrow> (Inl e, w3)
                | (Inr rs, w3) \<Rightarrow> (Inr (r # rs), w3))))"

definition list_v2 :: "klass \<Rightarrow> transport \<Rightarrow> jsval \<Rightarrow> world \<Rightarrow> ((error + result) \<times> world) option" where
  "list_v2 klass srv args w =
     (let args = (if truthy args then args else JObj [])
      in case apiClient_static klass of
           None \<Rightarrow> None
         | Some (Inl e) \<Rightarrow> Some (Inl e, w)
         | Some (Inr client) \<Rightarrow>
             Some (case send srv GET client args w of
                     (Inl e, w1) \<Rightarrow> (Inl e, w1)
                   | (Inr (JArr objs), w1) \<Rightarrow>
                       (case hydrate_all objs w1 of
                          (Inl e, w2) \<Rightarrow> (Inl e, w2)
                        | (Inr rs, w2) \<Rightarrow> (Inr (Array rs), w2))
                   | (Inr other, w1) \<Rightarrow> (Inl TypeError, w1)))"

text \<open>
  \<^verbatim>\<open>
  static async create(data) {
    let instance = this.newInstance();
    return instance.fillIn(await instance.apiClient.post(data));
  }
  async retrieve() { return this.fillIn(await this.apiClient.get()); }
  async update(data) { return this.fillIn(await this.apiClient.patch(data)); }
  delete() { return this.apiClient.delete(); }
  \<close>
\<close>

definition create_v2 :: "klass \<Rightarrow> transport \<Rightarrow> jsval \<Rightarrow> world \<Rightarrow> ((error + result) \<times> world) option" where
  "create_v2 klass srv data w =
     (case newInstance w of
        (instance, w0) \<Rightarrow>
          (case apiClient klass instance w0 of
             None \<Rightarrow> None
           | Some (Inl e) \<Rightarrow> Some (Inl e, w0)
           | Some (Inr client) \<Rightarrow>
               Some (case send srv POST client data w0 of
                       (Inl e, w1) \<Rightarrow> (Inl e, w1)
                     | (Inr response, w1) \<Rightarrow> fillIn_v2 instance response w1)))"

definition retrieve_v2 :: "klass \<Rightarrow> transport \<Rightarrow> nat \<Rightarrow> world \<Rightarrow> ((error + result) \<times> world) option" where
  "retrieve_v2 klass srv this w =
     (case apiClient klass this w of
        None \<Rightarrow> None
      | Some (Inl e) \<Rightarrow> Some (Inl e, w)
      | Some (Inr client) \<Rightarrow>
          Some (case send srv GET client JUndefined w of
                  (Inl e, w1) \<Rightarrow> (Inl e, w1)
                | (Inr response, w1) \<Rightarrow> fillIn_v2 this response w1))"

definition update_v2 :: "klass \<Rightarrow> transport \<Rightarrow> nat \<Rightarrow> jsval \<Rightarrow> world \<Rightarrow> ((error + result) \<times> world) option" where
  "update_v2 klass srv this data w =
     (case apiClient klass this w of
        None \<Rightarrow> None
      | Some (Inl e) \<Rightarrow> Some (Inl e, w)
      | Some (Inr client) \<Rightarrow>
          Some (case send srv PATCH client data w of
                  (Inl e, w1) \<Rightarrow> (Inl e, w1)
                | (Inr response, w1) \<Rightarrow> fillIn_v2 this response w1))"

definition delete_v2 :: "klass \<Rightarrow> transport \<Rightarrow> nat \<Rightarrow> world \<Rightarrow> ((error + result) \<times> world) option" where
  "delete_v2 klass srv this w =
     (case apiClient klass this w of
        None \<Rightarrow> None
      | Some (Inl e) \<Rightarrow> Some (Inl e, w)
      | Some (Inr client) \<Rightarrow>
          Some (case send srv DELETE client JUndefined w of
                  (Inl e, w1) \<Rightarrow> (Inl e, w1)
                | (Inr response, w1) \<Rightarrow> (Inr (Value response), w1)))"


section \<open>The builder variant\<close>

text \<open>
  A builder object holds a reference to its configuration object in the field \<^verbatim>\<open>config\<close>:
  \<^verbatim>\<open>
  constructor() {
      this.config = { resource: null, baseURL: null, requestListeners: [], innerResources: [] };
  }
  \<close>
\<close>

record builder =
  config_ref :: nat

definition new_ModelBuilder :: "world \<Rightarrow> builder \<times> world" where
  "new_ModelBuilder w =
     (let a = next_array w; c = next_config w
      in (\<lparr>config_ref = c\<rparr>,
          w\<lparr>arrays := (arrays w)(a := [], Suc a := []),
            next_array := Suc (Suc a),
            configs := (configs w)(c := \<lparr>resource = JNull, baseURL = JNull,
                                         requestListeners = a, innerResources = ArrayRef (Suc a)\<rparr>),
            next_config := Suc c\<rparr>))"

text \<open>
  The five mutators. Each returns the builder itself; the model returns the store.
  \<^verbatim>\<open>push\<close> on a value that is not an array throws a TypeError.
\<close>

definition addOnRequestListener :: "builder \<Rightarrow> item \<Rightarrow> world \<Rightarrow> world" where
  "addOnRequestListener this listener w =
     (let a = requestListeners (configs w (config_ref this))
      in w\<lparr>arrays := (arrays w)(a := arrays w a @ [listener])\<rparr>)"

definition setBaseURL :: "builder \<Rightarrow> jsval \<Rightarrow> world \<Rightarrow> world" where
  "setBaseURL this url w =
     w\<lparr>configs := (configs w)(config_ref this := (configs w (config_ref this))\<lparr>baseURL := url\<rparr>)\<rparr>"

definition setResource :: "builder \<Rightarrow> jsval \<Rightarrow> world \<Rightarrow> world" where
  "setResource this res w =
     w\<lparr>configs := (configs w)(config_ref this := (configs w (config_ref this))\<lparr>resource := res\<rparr>)\<rparr>"

definition addInnerResource :: "builder \<Rightarrow> item \<Rightarrow> world \<Rightarrow> error + world" where
  "addInnerResource this res w =
     (case innerResources (configs w (config_ref this)) of
        ArrayRef a \<Rightarrow> Inr (w\<lparr>arrays := (arrays w)(a := arrays w a @ [res])\<rparr>)
      | Plain v \<Rightarrow> Inl TypeError)"

definition setInnerResources :: "builder \<Rightarrow> slot \<Rightarrow> world \<Rightarrow> world" where
  "setInnerResources this resources w =
     w\<lparr>configs := (configs w)(config_ref this :=
          (configs w (config_ref this))\<lparr>innerResources := resources\<rparr>)\<rparr>"

text \<open>
  \<^verbatim>\<open>
  build() {
      if (!this.config.baseURL) { throw new NoBaseURLError(); }
      if (!this.config.resource) { throw new NoResourceError(); }
      const config = this.config;
      return class extends Model { get config() { return config; } }
  }
  \<close>
  The class that is returned closes over the variable \<^verbatim>\<open>config\<close>, a reference to the
  builder's configuration object.
\<close>

record entity_type =
  closure_config :: nat

definition build :: "builder \<Rightarrow> world \<Rightarrow> (error + entity_type) \<times> world" where
  "build this w =
     (if \<not> truthy (baseURL (configs w (config_ref this))) then (Inl NoBaseURLError, w)
      else if \<not> truthy (resource (configs w (config_ref this))) then (Inl NoResourceError, w)
      else (Inr \<lparr>closure_config = config_ref this\<rparr>, w))"

text \<open>
  What a reader of a configuration object sees at a moment: the two settings and the
  contents of the two lists.
\<close>

datatype contents = Items "item list" | Other jsval

record config_view =
  view_resource :: jsval
  view_baseURL :: jsval
  view_requestListeners :: "item list"
  view_innerResources :: contents

definition observe :: "nat \<Rightarrow> world \<Rightarrow> config_view" where
  "observe c w =
     \<lparr>view_resource = resource (configs w c),
      view_baseURL = baseURL (configs w c),
      view_requestListeners = arrays w (requestListeners (configs w c)),
      view_innerResources =
        (case innerResources (configs w c) of
           ArrayRef a \<Rightarrow> Items (arrays w a)
         | Plain v \<Rightarrow> Other v)\<rparr>"

text \<open>The getter \<^verbatim>\<open>get config() { return config; }\<close> of a built type, read at a moment.\<close>

definition type_config :: "entity_type \<Rightarrow> world \<Rightarrow> config_view" where
  "type_config T w = observe (closure_config T) w"

definition builder_config :: "builder \<Rightarrow> world \<Rightarrow> config_view" where
  "builder_config b w = observe (config_ref b) w"

text \<open>
  The constructor of the builder variant's \<^verbatim>\<open>Model\<close> begins
  \<^verbatim>\<open>
  constructor(arg) {
      const api = new RestClient(getAPIHost());
      resourceName = camelCaseToHyphen(this.constructor.config.resource);
  \<close>
  An identifier is resolved in the constructor's own scope (\<^verbatim>\<open>arg\<close>, \<^verbatim>\<open>api\<close>), then among
  the bindings of the module (its two imports and four classes), then among the properties
  of the host's global object, whose names are the parameter \<open>host\<close>. A name found nowhere
  throws a ReferenceError when it is read.
\<close>

definition constructor_scope_v1 :: "string list" where
  "constructor_scope_v1 = [''arg'', ''api'']"

definition module_scope_v1 :: "string list" where
  "module_scope_v1 =
     [''RestClient'', ''camelCaseToHyphen'', ''NoResourceError'', ''NoBaseURLError'',
      ''Model'', ''ModelBuilder'']"

definition resolvable :: "string list \<Rightarrow> string \<Rightarrow> bool" where
  "resolvable host x \<longleftrightarrow>
     x \<in> set constructor_scope_v1 \<or> x \<in> set module_scope_v1 \<or> x \<in> set host"

text \<open>
  Where the host does provide a function \<^verbatim>\<open>getAPIHost\<close> (and it returns), the second
  statement evaluates \<^verbatim>\<open>this.constructor.config.resource\<close> before it assigns.
  \<^verbatim>\<open>this.constructor.config\<close> is a static property of the class; the class that \<^verbatim>\<open>build\<close>
  returns declares \<^verbatim>\<open>config\<close> as a getter of its prototype only, and the static members it
  inherits from \<^verbatim>\<open>Model\<close> are \<^verbatim>\<open>list\<close> and \<^verbatim>\<open>create\<close>. The read gives \<^verbatim>\<open>undefined\<close>, and
  \<^verbatim>\<open>.resource\<close> on it throws a TypeError. So no path through the constructor of a built
  type gets beyond its second statement: the result is \<open>Inl\<close> on every path and the store
  is as it was.
\<close>

definition constructor_v1 :: "string list \<Rightarrow> entity_type \<Rightarrow> jsval \<Rightarrow> world \<Rightarrow> (error + nat) \<times> world" where
  "constructor_v1 host T arg w =
     (if \<not> resolvable host ''RestClient'' then (Inl (ReferenceError ''RestClient''), w)
      else if \<not> resolvable host ''getAPIHost'' then (Inl (ReferenceError ''getAPIHost''), w)
      else if \<not> resolvable host ''camelCaseToHyphen''
        then (Inl (ReferenceError ''camelCaseToHyphen''), w)
      else (Inl TypeError, w))"


section \<open>Example inputs\<close>

text \<open>The class \<^verbatim>\<open>Car\<close> of example.js, after \<^verbatim>\<open>useBaseURL\<close> and \<^verbatim>\<open>useName\<close>.\<close>

definition Car :: klass where
  "Car = useName (JStr ''cars'') (useBaseURL (JStr ''https://myapi.com/api'')
     \<lparr>klass_baseURL = JUndefined, klass_modelName = JUndefined, klass_conf = JUndefined,
      klass_prototype = [(''constructor'', Method), (''repair'', Method)],
      klass_statics = [(''length'', Field (JNum 0)), (''name'', Field (JStr ''Car'')),
                       (''prototype'', Field (JObj [])), (''repairAll'', Method),
                       (''modelName'', Field (JStr ''cars''))]\<rparr>)"

definition cars :: handle where
  "cars = \<lparr>h_base = JStr ''https://myapi.com/api'', h_options = JObj [], h_name = JStr ''cars'',
           h_resources = [''repair'', ''repair-all''], h_id = None\<rparr>"

text \<open>A transport stub that answers every request with \<^verbatim>\<open>{id: 7, name: "x"}\<close>.\<close>

definition echo7 :: transport where
  "echo7 history r = Inr (JObj [(''id'', JNum 7), (''name'', JStr ''x'')])"

text \<open>A transport stub that answers with \<^verbatim>\<open>[{id: 1, name: "a"}, {id: 2, name: "b"}]\<close>.\<close>

definition two_rows :: transport where
  "two_rows history r =
     Inr (JArr [JObj [(''id'', JNum 1), (''name'', JStr ''a'')],
                JObj [(''id'', JNum 2), (''name'', JStr ''b'')]])"

text \<open>An empty store.\<close>

definition empty_world :: world where
  "empty_world =
     \<lparr>configs = (\<lambda>_. \<lparr>resource = JUndefined, baseURL = JUndefined,
                       requestListeners = 0, innerResources = Plain JUndefined\<rparr>),
      next_config = 0,
      arrays = (\<lambda>_. []),
      next_array = 0,
      heap = (\<lambda>_. \<lparr>inst_id = JUndefined, inst_data = None, data_proto = ObjectPrototype\<rparr>),
      next_instance = 0,
      requests = []\<rparr>"


text \<open>The store after \<^verbatim>\<open>new Car()\<close>: one instance, at address 0, with no identity.\<close>

definition fresh_car :: world where
  "fresh_car = snd (newInstance empty_world)"

text \<open>
  The class \<^verbatim>\<open>Bike\<close>: \<^verbatim>\<open>class Bike extends Model {}\<close> after \<^verbatim>\<open>useBaseURL\<close>, with no
  \<^verbatim>\<open>useName\<close>.
\<close>

definition Bike :: klass where
  "Bike = useBaseURL (JStr ''https://myapi.com/api'')
     \<lparr>klass_baseURL = JUndefined, klass_modelName = JUndefined, klass_conf = JUndefined,
      klass_prototype = [(''constructor'', Method)],
      klass_statics = [(''length'', Field (JNum 0)), (''name'', Field (JStr ''Bike'')),
                       (''prototype'', Field (JObj []))]\<rparr>"



text \<open>The store after \<^verbatim>\<open>new Car(7)\<close>: one instance, at address 0, with identity 7.\<close>

definition car7 :: world where
  "car7 = snd (constructor_v2 (JNum 7) empty_world)"

text \<open>
  The store after \<^verbatim>\<open>Car.create({name: "x"})\<close> against the stub \<open>echo7\<close>: the instance at
  address 0 hydrated, one request sent.
\<close>

definition created_car :: world where
  "created_car =
     empty_world
       \<lparr>heap := (heap empty_world)
          (0 := \<lparr>inst_id = JUndefined,
                 inst_data = Some [(''id'', JNum 7), (''name'', JStr ''x'')],
                 data_proto = ObjectPrototype\<rparr>),
        next_instance := 1,
        requests := [\<lparr>verb = POST, target = cars, payload = JObj [(''name'', JStr ''x'')]\<rparr>]\<rparr>"

text \<open>
  The builder of the repository's builder example, \<^verbatim>\<open>new ModelBuilder()\<close> in an empty store,
  and the store after \<^verbatim>\<open>setBaseURL("http://mysite.com/my-api")\<close> and
  \<^verbatim>\<open>setResource("nice-models")\<close>.
\<close>

definition MyAPIModelBuilder :: builder where
  "MyAPIModelBuilder = fst (new_ModelBuilder empty_world)"

definition unconfigured :: world where
  "unconfigured = snd (new_ModelBuilder empty_world)"

definition configured :: world where
  "configured =
     setResource MyAPIModelBuilder (JStr ''nice-models'')
       (setBaseURL MyAPIModelBuilder (JStr ''http://mysite.com/my-api'') unconfigured)"

definition MyNiceModel :: entity_type where
  "MyNiceModel = \<lparr>closure_config = 0\<rparr>"

text \<open>The names a browser's global object is sure to define, among many others.\<close>

definition browser_globals :: "string list" where
  "browser_globals =
     [''Object'', ''Function'', ''String'', ''Date'', ''Error'', ''isNaN'', ''parseInt'',
      ''document'', ''window'']"


section \<open>Theorems: case converter\<close>

lemma replace_shift:
  "s ! i = c \<Longrightarrow> i < length s \<Longrightarrow>
     length (replace c [d, c] s) = Suc (length s) \<and> replace c [d, c] s ! Suc i = c"
proof (induction s arbitrary: i)
  case Nil
  then show ?case by simp
next
  case (Cons x xs)
  show ?case
  proof (cases "x = c")
    case True
    with Cons.prems show ?thesis by simp
  next
    case False
    with Cons.prems obtain j where j: "i = Suc j" by (cases i) auto
    with Cons.prems Cons.IH [of j] False show ?thesis by simp
  qed
qed

text \<open>
  Once the loop stands on a caseless character at an index above 0 it never returns: the
  replacement puts a hyphen in front of the first occurrence of that character, which is at
  or before the index, so the next index holds the same character again.
\<close>

lemma camelToKebab_loop_stuck:
  assumes "camelToKebab_loop i s = Some y"
  shows "\<not> (0 < i \<and> i < length s \<and> caseless (s ! i))"
  using assms
proof (induction rule: camelToKebab_loop.raw_induct [rotated 1, consumes 1, case_names step])
  case (step f i s y)
  show ?case
  proof
    assume inv: "0 < i \<and> i < length s \<and> caseless (s ! i)"
    let ?c = "s ! i"
    let ?s' = "replace ?c [CHR ''-'', ?c] s"
    from inv have low: "toLowerCase ?c = ?c" and up: "toUpperCase ?c = ?c"
      by (simp_all add: caseless_def)
    from inv replace_shift [of s i ?c "CHR ''-''"]
    have sh: "length ?s' = Suc (length s)" "?s' ! Suc i = ?c" by simp_all
    from step.hyps inv low up have "f (Suc i) ?s' = Some y" by simp
    from step.IH [OF this] sh inv show False by simp
  qed
qed

lemma camelToKebab_loop_diverges:
  "0 < i \<Longrightarrow> i < length s \<Longrightarrow> caseless (s ! i) \<Longrightarrow> camelToKebab_loop i s = None"
  using camelToKebab_loop_stuck [of i s] by (cases "camelToKebab_loop i s") auto

lemma camelToKebab_loop_skip:
  "i < length s \<Longrightarrow> toUpperCase (s ! i) \<noteq> s ! i
     \<Longrightarrow> camelToKebab_loop i s = camelToKebab_loop (Suc i) s"
  by (subst camelToKebab_loop.simps) simp

text \<open>
  C8. The claim: the case converter is total, it terminates on every input string and
  returns a string, and it maps the empty string to the empty string. On the input
  \<^verbatim>\<open>"a1"\<close> both converters never return: the digit equals its own upper case, the
  replacement keeps it in the string one place further, and the loop index follows it
  for ever. The same happens on \<^verbatim>\<open>"nice-models"\<close>, the resource name of the repository's
  builder example, at its hyphen. The empty string is mapped to the empty string.
\<close>

theorem camelToKebab_a1_never_returns:
  "camelToKebab ''a1'' = None \<and> camelCaseToHyphen ''a1'' = None
     \<and> camelCaseToHyphen ''nice-models'' = None
     \<and> camelToKebab '''' = Some '''' \<and> camelCaseToHyphen '''' = Some ''''"
proof -
  have "camelToKebab_loop (Suc 0) ''a1'' = None"
    by (rule camelToKebab_loop_diverges)
       (simp_all add: caseless_def toUpperCase_def toLowerCase_def)
  then have a1: "camelToKebab_loop 0 ''a1'' = None"
    by (simp add: camelToKebab_loop_skip toUpperCase_def)
  have "camelToKebab_loop (Suc (Suc (Suc (Suc 0)))) ''nice-models'' = None"
    by (rule camelToKebab_loop_diverges)
       (simp_all add: caseless_def toUpperCase_def toLowerCase_def)
  then have nice: "camelToKebab_loop 0 ''nice-models'' = None"
    by (simp add: camelToKebab_loop_skip toUpperCase_def)
  have "camelToKebab_loop 0 '''' = Some ''''"
    by (simp add: camelToKebab_loop.simps [of 0])
  with a1 nice show ?thesis
    by (simp add: camelToKebab_def camelCaseToHyphen_def)
qed

text \<open>
  C9. The claim: for every input string the converter returns the string with a hyphen
  before each uppercase letter at an index above 0, lowercased. On \<^verbatim>\<open>"AbA"\<close> the
  code returns \<^verbatim>\<open>"-ab-a"\<close>, because \<^verbatim>\<open>replace\<close> rewrites the first occurrence of the
  letter, which is the one at index 0; the specification's converter gives \<^verbatim>\<open>"ab-a"\<close>.
  The three examples of the claim do hold.
\<close>

theorem camelToKebab_AbA_differs_from_spec:
  "camelToKebab ''AbA'' = Some ''-ab-a'' \<and> camelCaseToHyphen ''AbA'' = Some ''-ab-a''
     \<and> toHyphenated_spec ''AbA'' = ''ab-a''
     \<and> camelToKebab ''repairAll'' = Some ''repair-all''
     \<and> camelToKebab ''id'' = Some ''id''
     \<and> camelToKebab '''' = Some ''''"
  by (simp add: camelToKebab_def camelCaseToHyphen_def camelToKebab_loop.simps
      toUpperCase_def toLowerCase_def hyphenate_def isUpperLetter_def)


section \<open>Theorems: the class-based variant\<close>

lemmas Car_eval =
  Car_def useName_def useBaseURL_def allMethodsOf_def own_def camelToKebab_def
  camelToKebab_loop.simps toUpperCase_def toLowerCase_def apiClient_static_def cars_def

lemma Car_client: "apiClient_static Car = Some (Inr cars)"
  by (simp add: Car_eval)

lemma cars_well_named: "well_named cars"
  by (simp add: well_named_def resource_names_def cars_def transport_members_def)

lemma Bike_client: "apiClient_static Bike = Some (Inl TypeError)"
  by (simp add: apiClient_static_def Bike_def useBaseURL_def)

lemma fresh_car_simps:
  "heap fresh_car 0 = \<lparr>inst_id = JUndefined, inst_data = None, data_proto = ObjectPrototype\<rparr>"
  "requests fresh_car = []"
  by (simp_all add: fresh_car_def newInstance_def constructor_v2_def empty_world_def)

lemma car7_simps:
  "heap car7 0 = \<lparr>inst_id = JNum 7, inst_data = None, data_proto = ObjectPrototype\<rparr>"
  "requests car7 = []"
  by (simp_all add: car7_def constructor_v2_def empty_world_def)

lemma send_requests:
  "requests (snd (send srv v h body w))
     = requests w @ [\<lparr>verb = v, target = h, payload = body\<rparr>]"
  by (simp add: send_def Let_def)

lemma send_error:
  "fst (send srv v h body w) = Inl e \<Longrightarrow> \<exists>reason. e = TransportError reason"
  by (auto simp: send_def Let_def split: sum.splits)

lemma fillIn_v2_requests: "requests (snd (fillIn_v2 this obj w)) = requests w"
  by (cases "getOwnPropertyNames obj") (simp_all add: fillIn_v2_def Let_def)

lemma fillIn_v2_error: "fst (fillIn_v2 this obj w) = Inl e \<Longrightarrow> e = TypeError"
  by (cases obj) (simp_all add: fillIn_v2_def Let_def)

lemma fillIn_v2_result: "fst (fillIn_v2 this obj w) = Inr r \<Longrightarrow> r = Value JUndefined"
  by (cases obj) (simp_all add: fillIn_v2_def Let_def)

lemma apiClient_static_collection:
  "apiClient_static klass = Some (Inr client) \<Longrightarrow> h_id client = None"
  by (auto simp: apiClient_static_def split: option.splits jsval.splits)

lemma apiClient_without_identity:
  "inst_id (heap w this) = JUndefined \<Longrightarrow> apiClient_static klass = Some (Inr client)
     \<Longrightarrow> apiClient klass this w = Some (Inr client)"
  by (simp add: apiClient_def)

lemma then_fillIn_requests:
  "requests (snd (case send srv v h body w of
                    (Inl e, w1) \<Rightarrow> (Inl e, w1)
                  | (Inr response, w1) \<Rightarrow> fillIn_v2 this response w1))
     = requests w @ [\<lparr>verb = v, target = h, payload = body\<rparr>]"
  using send_requests [of srv v h body w]
  by (cases "send srv v h body w") (auto simp: fillIn_v2_requests split: sum.splits)

lemma then_fillIn_error:
  "fst (case send srv v h body w of
          (Inl e, w1) \<Rightarrow> (Inl e, w1)
        | (Inr response, w1) \<Rightarrow> fillIn_v2 this response w1) \<noteq> Inl NoIdentityError"
  using send_error [of srv v h body w NoIdentityError]
  by (cases "send srv v h body w") (auto split: sum.splits dest: fillIn_v2_error)

text \<open>
  C1. The claim: on an instance without identity, \<^verbatim>\<open>retrieve()\<close>, \<^verbatim>\<open>update(data)\<close> and
  \<^verbatim>\<open>delete()\<close> fail with a NoIdentityError and no transport verb is invoked. On a fresh
  \<^verbatim>\<open>Car\<close> instance \<^verbatim>\<open>retrieve()\<close> resolves, and it has sent a GET to the collection handle.
\<close>

theorem retrieve_without_identity_sends_GET:
  "inst_id (heap fresh_car 0) = JUndefined
   \<and> map_option fst (retrieve_v2 Car echo7 0 fresh_car) = Some (Inr (Value JUndefined))
   \<and> map_option (requests \<circ> snd) (retrieve_v2 Car echo7 0 fresh_car)
       = Some [\<lparr>verb = GET, target = cars, payload = JUndefined\<rparr>]
   \<and> h_id cars = None"
  by (simp add: retrieve_v2_def apiClient_def Car_client fresh_car_simps send_def echo7_def
      fillIn_v2_def Let_def bag_of_def merge_def assign_def) (simp add: cars_def)

text \<open>
  C1, as the code has it. The instance getter \<^verbatim>\<open>apiClient\<close> narrows the handle only when
  \<^verbatim>\<open>this.id\<close> is truthy and returns the collection handle otherwise. So on an instance whose
  identity is absent, whenever the static getter returns a handle (the class has a string
  name and the case converter returns for each of its method names) whose resource names
  leave the handle's own members in place, each of \<^verbatim>\<open>retrieve()\<close>, \<^verbatim>\<open>update(data)\<close> and
  \<^verbatim>\<open>delete()\<close> sends exactly one request, with its verb GET, PATCH or DELETE, to the
  collection handle, and none of them fails with a NoIdentityError.
\<close>

theorem identityless_calls_reach_collection:
  assumes "inst_id (heap w this) = JUndefined"
    and "apiClient_static klass = Some (Inr client)"
    and "well_named client"
  shows "h_id client = None
    \<and> map_option (requests \<circ> snd) (retrieve_v2 klass srv this w)
        = Some (requests w @ [\<lparr>verb = GET, target = client, payload = JUndefined\<rparr>])
    \<and> map_option (requests \<circ> snd) (update_v2 klass srv this data w)
        = Some (requests w @ [\<lparr>verb = PATCH, target = client, payload = data\<rparr>])
    \<and> map_option (requests \<circ> snd) (delete_v2 klass srv this w)
        = Some (requests w @ [\<lparr>verb = DELETE, target = client, payload = JUndefined\<rparr>])
    \<and> map_option fst (retrieve_v2 klass srv this w) \<noteq> Some (Inl NoIdentityError)
    \<and> map_option fst (update_v2 klass srv this data w) \<noteq> Some (Inl NoIdentityError)
    \<and> map_option fst (delete_v2 klass srv this w) \<noteq> Some (Inl NoIdentityError)"
proof -
  note client = apiClient_without_identity [OF assms(1,2)]
  have del_req:
    "requests (snd (case send srv DELETE client JUndefined w of
                      (Inl e, w1) \<Rightarrow> (Inl e, w1)
                    | (Inr response, w1) \<Rightarrow> (Inr (Value response), w1)))
       = requests w @ [\<lparr>verb = DELETE, target = client, payload = JUndefined\<rparr>]"
    using send_requests [of srv DELETE client JUndefined w]
    by (cases "send srv DELETE client JUndefined w") (auto split: sum.splits)
  have del_err:
    "fst (case send srv DELETE client JUndefined w of
            (Inl e, w1) \<Rightarrow> (Inl e, w1)
          | (Inr response, w1) \<Rightarrow> (Inr (Value response), w1)) \<noteq> Inl NoIdentityError"
    using send_error [of srv DELETE client JUndefined w NoIdentityError]
    by (cases "send srv DELETE client JUndefined w") (auto split: sum.splits)
  show ?thesis
    by (simp add: apiClient_static_collection [OF assms(2)] retrieve_v2_def update_v2_def
        delete_v2_def client then_fillIn_requests then_fillIn_error del_req del_err)
qed

theorem identityless_calls_reach_collection_witness:
  "inst_id (heap fresh_car 0) = JUndefined \<and> apiClient_static Car = Some (Inr cars)
    \<and> well_named cars
    \<and> map_option (requests \<circ> snd)
         (update_v2 Car echo7 0 (JObj [(''name'', JStr ''y'')]) fresh_car)
        = Some [\<lparr>verb = PATCH, target = cars, payload = JObj [(''name'', JStr ''y'')]\<rparr>]
    \<and> map_option (requests \<circ> snd) (delete_v2 Car echo7 0 fresh_car)
        = Some [\<lparr>verb = DELETE, target = cars, payload = JUndefined\<rparr>]"
proof -
  have a: "inst_id (heap fresh_car 0) = JUndefined" by (simp add: fresh_car_simps)
  from identityless_calls_reach_collection
         [OF a Car_client cars_well_named, of echo7 "JObj [(''name'', JStr ''y'')]"]
       a Car_client cars_well_named
  show ?thesis by (simp add: fresh_car_simps)
qed

text \<open>
  On a class without a string name the static getter throws, and every operation fails
  with that TypeError before anything is sent.
\<close>

lemma unnamed_class_sends_nothing:
  "retrieve_v2 Bike srv this w = Some (Inl TypeError, w)"
  "update_v2 Bike srv this data w = Some (Inl TypeError, w)"
  "delete_v2 Bike srv this w = Some (Inl TypeError, w)"
  "list_v2 Bike srv args w = Some (Inl TypeError, w)"
  by (simp_all add: retrieve_v2_def update_v2_def delete_v2_def list_v2_def apiClient_def
      Bike_client)

text \<open>
  C2. The claim: \<^verbatim>\<open>i.fillIn(r)\<close> mutates \<open>i\<close> and returns \<open>i\<close> itself, so that \<^verbatim>\<open>create\<close> and
  \<^verbatim>\<open>retrieve\<close> resolve to the hydrated instance. In the class-based variant \<^verbatim>\<open>fillIn\<close>
  has no \<^verbatim>\<open>return\<close>: on the instance at address 0 it fills the data bag and evaluates to
  \<^verbatim>\<open>undefined\<close>, not to a reference to that instance, and \<^verbatim>\<open>retrieve()\<close> on \<^verbatim>\<open>new Car(7)\<close>
  resolves to \<^verbatim>\<open>undefined\<close>.
\<close>

theorem fillIn_v2_returns_undefined:
  "fst (fillIn_v2 0 (JObj [(''id'', JNum 7), (''name'', JStr ''x'')]) fresh_car)
     = Inr (Value JUndefined)
   \<and> fst (fillIn_v2 0 (JObj [(''id'', JNum 7), (''name'', JStr ''x'')]) fresh_car)
     \<noteq> Inr (Instance 0)
   \<and> inst_data (heap (snd (fillIn_v2 0 (JObj [(''id'', JNum 7), (''name'', JStr ''x'')])
        fresh_car)) 0) = Some [(''id'', JNum 7), (''name'', JStr ''x'')]
   \<and> map_option fst (retrieve_v2 Car echo7 0 car7) = Some (Inr (Value JUndefined))
   \<and> map_option (requests \<circ> snd) (retrieve_v2 Car echo7 0 car7)
       = Some [\<lparr>verb = GET, target = narrow cars (JNum 7), payload = JUndefined\<rparr>]"
  by (simp add: fillIn_v2_def Let_def bag_of_def merge_def assign_def fresh_car_simps car7_simps
      retrieve_v2_def apiClient_def Car_client send_def echo7_def)

text \<open>
  C3. The claim: when \<^verbatim>\<open>create(data)\<close> resolves against a transport that answers
  \<^verbatim>\<open>{id: 7, name: "x"}\<close>, the returned instance has identity 7 and its later \<^verbatim>\<open>retrieve()\<close>
  and \<^verbatim>\<open>update(data)\<close> go to the singular path \<^verbatim>\<open>resourceName/7\<close>. In the class-based variant
  \<^verbatim>\<open>Car.create({name: "x"})\<close> resolves to \<^verbatim>\<open>undefined\<close>; the instance it made holds the id
  in its data bag only, its field \<^verbatim>\<open>id\<close> stays \<^verbatim>\<open>undefined\<close>, and a later \<^verbatim>\<open>retrieve()\<close> or
  \<^verbatim>\<open>update(data)\<close> on it goes to the collection handle.
\<close>

theorem create_v2_resolves_undefined:
  "create_v2 Car echo7 (JObj [(''name'', JStr ''x'')]) empty_world
     = Some (Inr (Value JUndefined), created_car)
   \<and> inst_id (heap created_car 0) = JUndefined
   \<and> inst_data (heap created_car 0) = Some [(''id'', JNum 7), (''name'', JStr ''x'')]
   \<and> map_option (requests \<circ> snd) (retrieve_v2 Car echo7 0 created_car)
       = Some [\<lparr>verb = POST, target = cars, payload = JObj [(''name'', JStr ''x'')]\<rparr>,
               \<lparr>verb = GET, target = cars, payload = JUndefined\<rparr>]
   \<and> map_option (requests \<circ> snd)
        (update_v2 Car echo7 0 (JObj [(''name'', JStr ''y'')]) created_car)
       = Some [\<lparr>verb = POST, target = cars, payload = JObj [(''name'', JStr ''x'')]\<rparr>,
               \<lparr>verb = PATCH, target = cars, payload = JObj [(''name'', JStr ''y'')]\<rparr>]
   \<and> h_id cars = None"
proof -
  have "create_v2 Car echo7 (JObj [(''name'', JStr ''x'')]) empty_world
          = Some (Inr (Value JUndefined), created_car)"
    by (simp add: create_v2_def newInstance_def constructor_v2_def apiClient_def Car_client
        send_def echo7_def fillIn_v2_def Let_def bag_of_def merge_def assign_def created_car_def
        empty_world_def)
  moreover have "heap created_car 0
     = \<lparr>inst_id = JUndefined, inst_data = Some [(''id'', JNum 7), (''name'', JStr ''x'')],
        data_proto = ObjectPrototype\<rparr>"
    by (simp add: created_car_def)
  moreover have "requests created_car
     = [\<lparr>verb = POST, target = cars, payload = JObj [(''name'', JStr ''x'')]\<rparr>]"
    by (simp add: created_car_def)
  moreover have "h_id cars = None"
    by (simp add: cars_def)
  ultimately show ?thesis
    by (simp add: retrieve_v2_def update_v2_def apiClient_def Car_client
        then_fillIn_requests)
qed

text \<open>
  Every element that \<^verbatim>\<open>list\<close> maps is the value of a \<^verbatim>\<open>fillIn\<close> call, that is,
  \<^verbatim>\<open>undefined\<close>; there are as many as the response has elements.
\<close>

lemma hydrate_all_undefined:
  "fst (hydrate_all objs w) = Inr rs \<Longrightarrow> rs = replicate (length objs) (Value JUndefined)"
proof (induction objs arbitrary: w rs)
  case Nil
  then show ?case by simp
next
  case (Cons obj objs)
  obtain a w1 where n: "newInstance w = (a, w1)" by (cases "newInstance w")
  obtain r1 w2 where f: "fillIn_v2 a obj w1 = (r1, w2)" by (cases "fillIn_v2 a obj w1")
  obtain r2 w3 where h: "hydrate_all objs w2 = (r2, w3)" by (cases "hydrate_all objs w2")
  from Cons.prems n f h obtain r rs' where
    r: "r1 = Inr r" and rs': "r2 = Inr rs'" and rs: "rs = r # rs'"
    by (auto split: sum.splits)
  from f r have "r = Value JUndefined" using fillIn_v2_result [of a obj w1 r] by simp
  moreover from h rs' have "rs' = replicate (length objs) (Value JUndefined)"
    using Cons.IH [of w2 rs'] by simp
  ultimately show ?case using rs by simp
qed

text \<open>
  C6. The claim: for a raw array of length \<open>n\<close>, \<^verbatim>\<open>list(args)\<close> resolves to \<open>n\<close> new hydrated
  instances in the order of the array; for \<^verbatim>\<open>[{id:1,name:"a"},{id:2,name:"b"}]\<close> to two
  instances with identities 1 and 2. In the class-based variant \<^verbatim>\<open>Car.list()\<close> resolves to
  \<^verbatim>\<open>[undefined, undefined]\<close>: the two instances it made are hydrated, in order, and dropped,
  and their field \<^verbatim>\<open>id\<close> is \<^verbatim>\<open>undefined\<close>.
\<close>

theorem list_v2_resolves_undefined_elements:
  "map_option fst (list_v2 Car two_rows JUndefined empty_world)
     = Some (Inr (Array [Value JUndefined, Value JUndefined]))
   \<and> map_option (\<lambda>(r, w). heap w 0) (list_v2 Car two_rows JUndefined empty_world)
     = Some \<lparr>inst_id = JUndefined,
             inst_data = Some [(''id'', JNum 1), (''name'', JStr ''a'')],
             data_proto = ObjectPrototype\<rparr>
   \<and> map_option (\<lambda>(r, w). heap w 1) (list_v2 Car two_rows JUndefined empty_world)
     = Some \<lparr>inst_id = JUndefined,
             inst_data = Some [(''id'', JNum 2), (''name'', JStr ''b'')],
             data_proto = ObjectPrototype\<rparr>
   \<and> map_option (requests \<circ> snd) (list_v2 Car two_rows JUndefined empty_world)
     = Some [\<lparr>verb = GET, target = cars, payload = JObj []\<rparr>]"
  by (simp add: list_v2_def Car_client send_def two_rows_def newInstance_def
      constructor_v2_def fillIn_v2_def Let_def bag_of_def merge_def assign_def empty_world_def)













section \<open>Theorems: the builder variant\<close>

lemma MyAPIModelBuilder_simps: "config_ref MyAPIModelBuilder = 0"
  by (simp add: MyAPIModelBuilder_def new_ModelBuilder_def empty_world_def Let_def)

lemma unconfigured_simps:
  "configs unconfigured 0
     = \<lparr>resource = JNull, baseURL = JNull, requestListeners = 0, innerResources = ArrayRef 1\<rparr>"
  "arrays unconfigured 0 = []"
  "arrays unconfigured (Suc 0) = []"
  "requests unconfigured = []"
  by (simp_all add: unconfigured_def new_ModelBuilder_def empty_world_def Let_def)

lemma configured_simps:
  "configs configured 0
     = \<lparr>resource = JStr ''nice-models'', baseURL = JStr ''http://mysite.com/my-api'',
        requestListeners = 0, innerResources = ArrayRef 1\<rparr>"
  "arrays configured 0 = []"
  "arrays configured (Suc 0) = []"
  "requests configured = []"
  by (simp_all add: configured_def setResource_def setBaseURL_def MyAPIModelBuilder_simps
      unconfigured_simps)

lemma build_closure:
  "build b w = (Inr T, w') \<Longrightarrow> closure_config T = config_ref b \<and> w' = w"
  by (auto simp: build_def split: if_splits)

text \<open>
  C4. The claim: the configuration of a built type is a snapshot fixed at build time, which
  no later mutation of the same builder changes. In the repository's builder example, the
  type built for \<^verbatim>\<open>"nice-models"\<close> observes the resource \<^verbatim>\<open>"other-models"\<close> once the builder
  is given \<^verbatim>\<open>setResource("other-models")\<close>.
\<close>

theorem later_setResource_reaches_built_type:
  "build MyAPIModelBuilder configured = (Inr MyNiceModel, configured)
   \<and> view_resource (type_config MyNiceModel configured) = JStr ''nice-models''
   \<and> view_resource (type_config MyNiceModel
        (setResource MyAPIModelBuilder (JStr ''other-models'') configured))
       = JStr ''other-models''"
  by (simp add: build_def MyAPIModelBuilder_simps configured_simps MyNiceModel_def
      type_config_def observe_def setResource_def)

text \<open>
  C4, as the code has it. \<^verbatim>\<open>build\<close> hands the built type a reference to the builder's own
  configuration object, not a copy. At build time the type observes the builder's
  configuration, and in every later store \<open>w2\<close> each mutation of the same builder is
  observed by the type: \<^verbatim>\<open>setResource\<close> and \<^verbatim>\<open>setBaseURL\<close> replace the observed setting,
  \<^verbatim>\<open>setInnerResources\<close> replaces the observed list of inner resources, and
  \<^verbatim>\<open>addOnRequestListener\<close> and \<^verbatim>\<open>addInnerResource\<close> append to the observed lists
  (\<^verbatim>\<open>addInnerResource\<close> throws a TypeError where the inner resources are not an array).
\<close>

theorem built_type_shares_builder_config:
  assumes "build b w = (Inr T, w')"
  shows "w' = w \<and> type_config T w = builder_config b w
    \<and> type_config T (setResource b r w2) = (type_config T w2)\<lparr>view_resource := r\<rparr>
    \<and> type_config T (setBaseURL b u w2) = (type_config T w2)\<lparr>view_baseURL := u\<rparr>
    \<and> type_config T (setInnerResources b (Plain v) w2)
        = (type_config T w2)\<lparr>view_innerResources := Other v\<rparr>
    \<and> type_config T (setInnerResources b (ArrayRef a) w2)
        = (type_config T w2)\<lparr>view_innerResources := Items (arrays w2 a)\<rparr>
    \<and> view_requestListeners (type_config T (addOnRequestListener b l w2))
        = view_requestListeners (type_config T w2) @ [l]
    \<and> map_sum id (\<lambda>w3. view_innerResources (type_config T w3)) (addInnerResource b x w2)
        = (case view_innerResources (type_config T w2) of
             Items xs \<Rightarrow> Inr (Items (xs @ [x]))
           | Other v \<Rightarrow> Inl TypeError)"
proof -
  from build_closure [OF assms] have c: "closure_config T = config_ref b" and w: "w' = w"
    by simp_all
  have 1: "type_config T w = builder_config b w"
    by (simp add: type_config_def builder_config_def c)
  have 2: "type_config T (setResource b r w2) = (type_config T w2)\<lparr>view_resource := r\<rparr>"
    by (simp add: type_config_def observe_def setResource_def c split: slot.splits)
  have 3: "type_config T (setBaseURL b u w2) = (type_config T w2)\<lparr>view_baseURL := u\<rparr>"
    by (simp add: type_config_def observe_def setBaseURL_def c split: slot.splits)
  have 4: "type_config T (setInnerResources b (Plain v) w2)
        = (type_config T w2)\<lparr>view_innerResources := Other v\<rparr>"
    by (simp add: type_config_def observe_def setInnerResources_def c)
  have 5: "type_config T (setInnerResources b (ArrayRef a) w2)
        = (type_config T w2)\<lparr>view_innerResources := Items (arrays w2 a)\<rparr>"
    by (simp add: type_config_def observe_def setInnerResources_def c)
  have 6: "view_requestListeners (type_config T (addOnRequestListener b l w2))
        = view_requestListeners (type_config T w2) @ [l]"
    by (simp add: type_config_def observe_def addOnRequestListener_def c Let_def)
  have 7: "map_sum id (\<lambda>w3. view_innerResources (type_config T w3)) (addInnerResource b x w2)
        = (case view_innerResources (type_config T w2) of
             Items xs \<Rightarrow> Inr (Items (xs @ [x]))
           | Other v \<Rightarrow> Inl TypeError)"
    by (cases "innerResources (configs w2 (config_ref b))")
       (simp_all add: type_config_def observe_def addInnerResource_def c)
  from w 1 2 3 4 5 6 7 show ?thesis by simp
qed

theorem built_type_shares_builder_config_witness:
  "build MyAPIModelBuilder configured = (Inr MyNiceModel, configured)
   \<and> view_baseURL (type_config MyNiceModel
        (setBaseURL MyAPIModelBuilder (JStr ''http://other.com/api'') configured))
       = JStr ''http://other.com/api''
   \<and> view_innerResources (type_config MyNiceModel
        (setInnerResources MyAPIModelBuilder (Plain JNull) configured)) = Other JNull
   \<and> view_requestListeners (type_config MyNiceModel
        (addOnRequestListener MyAPIModelBuilder (Callback ''authorize'') configured))
       = [Callback ''authorize'']
   \<and> map_sum id (\<lambda>w3. view_innerResources (type_config MyNiceModel w3))
        (addInnerResource MyAPIModelBuilder (Data (JStr ''repair'')) configured)
       = Inr (Items [Data (JStr ''repair'')])"
proof -
  have b: "build MyAPIModelBuilder configured = (Inr MyNiceModel, configured)"
    by (simp add: build_def MyAPIModelBuilder_simps configured_simps MyNiceModel_def)
  have v: "type_config MyNiceModel configured
     = \<lparr>view_resource = JStr ''nice-models'', view_baseURL = JStr ''http://mysite.com/my-api'',
        view_requestListeners = [], view_innerResources = Items []\<rparr>"
    by (simp add: type_config_def observe_def MyNiceModel_def configured_simps)
  from built_type_shares_builder_config
         [OF b, of "JStr ''other-models''" configured "JStr ''http://other.com/api''" JNull 1
            "Callback ''authorize''" "Data (JStr ''repair'')"] b
  show ?thesis by (simp add: v)
qed

text \<open>
  The checks of \<^verbatim>\<open>build()\<close>, in their order: NoBaseURLError whenever the base address is
  falsy (\<^verbatim>\<open>null\<close> in a new builder), NoResourceError whenever the base address is set and
  the resource name is falsy, a type otherwise. The store is as before in every case; in
  particular no request has been sent.
\<close>

lemma build_cases:
  "(\<not> truthy (view_baseURL (builder_config b w)) \<longrightarrow> build b w = (Inl NoBaseURLError, w))
   \<and> (truthy (view_baseURL (builder_config b w))
        \<and> \<not> truthy (view_resource (builder_config b w))
        \<longrightarrow> build b w = (Inl NoResourceError, w))
   \<and> (truthy (view_baseURL (builder_config b w)) \<and> truthy (view_resource (builder_config b w))
        \<longrightarrow> (\<exists>T. build b w = (Inr T, w) \<and> type_config T w = builder_config b w))
   \<and> snd (build b w) = w
   \<and> requests (snd (build b w)) = requests w"
  by (simp add: build_def builder_config_def type_config_def observe_def)

text \<open>Whatever the host defines, the constructor of a built type returns no instance.\<close>

lemma constructor_v1_always_throws:
  "\<exists>e. constructor_v1 host T arg w = (Inl e, w)"
  by (simp add: constructor_v1_def)

text \<open>
  C5. The claim: \<^verbatim>\<open>build()\<close> fails with NoBaseURLError when no base address is configured,
  with NoResourceError when a base address is configured and no resource name, and
  succeeds returning a usable entity type when both are set, without network activity. In
  the repository's builder example the two failures and the success are as claimed and the
  store stays as it was, but the type that \<^verbatim>\<open>build()\<close> returns cannot be used:
  \<^verbatim>\<open>new this()\<close>, with which \<^verbatim>\<open>list\<close> and \<^verbatim>\<open>create\<close> begin, throws a ReferenceError, and on a
  host that defines \<^verbatim>\<open>getAPIHost\<close> it throws a TypeError.
\<close>

theorem build_returns_type_that_cannot_be_constructed:
  "build MyAPIModelBuilder unconfigured = (Inl NoBaseURLError, unconfigured)
   \<and> build MyAPIModelBuilder
        (setBaseURL MyAPIModelBuilder (JStr ''http://mysite.com/my-api'') unconfigured)
       = (Inl NoResourceError,
          setBaseURL MyAPIModelBuilder (JStr ''http://mysite.com/my-api'') unconfigured)
   \<and> build MyAPIModelBuilder configured = (Inr MyNiceModel, configured)
   \<and> requests (snd (build MyAPIModelBuilder configured)) = []
   \<and> constructor_v1 browser_globals MyNiceModel JUndefined configured
       = (Inl (ReferenceError ''getAPIHost''), configured)
   \<and> constructor_v1 (''getAPIHost'' # browser_globals) MyNiceModel JUndefined configured
       = (Inl TypeError, configured)"
  by (simp add: build_def MyAPIModelBuilder_simps unconfigured_simps configured_simps
      setBaseURL_def MyNiceModel_def constructor_v1_def resolvable_def
      constructor_scope_v1_def module_scope_v1_def browser_globals_def)



end
